theory Spec2Isabelle
  imports
    Complex_Main
    "HOL-Library.Multiset"
    "HOL-Library.Option_ord"
    "HOL-Library.Char_ord"
    "HOL-Library.List_Lexorder"
    "HOL-Library.Product_Lexorder"
begin

section \<open>The flight booking dashboard (app.py)\<close>

text \<open>
  The program is one script over a pandas DataFrame: it loads a spreadsheet, cleans a few
  columns, filters by year and month, keeps the ticketed rows and computes a fixed set of
  summaries. The model follows the script statement by statement.

  \<^item> A cell of the spreadsheet is \<open>Null\<close> (pandas NaN, NaT or NA), a text, a number or
    a timestamp. Numbers are exact rationals: the rounding of IEEE doubles and the
    non-finite doubles are not modelled.
  \<^item> A DataFrame is its list of column labels and its list of rows; a row gives a cell
    for every label. \<open>df[c]\<close> on a label that is not a column raises KeyError.
  \<^item> Every exception the script can raise is a value \<open>Inl e\<close>.
  \<^item> The functions of pandas and Python whose result the script does not fix are
    parameters, collected in the record \<open>lib\<close>.
\<close>

subsection \<open>Cells, rows, tables\<close>

datatype month =
  January | February | March | April | May | June
  | July | August | September | October | November | December

text \<open>\<open>Series.dt.month\<close>.\<close>

fun month_number :: "month \<Rightarrow> nat" where
  "month_number January = 1"
| "month_number February = 2"
| "month_number March = 3"
| "month_number April = 4"
| "month_number May = 5"
| "month_number June = 6"
| "month_number July = 7"
| "month_number August = 8"
| "month_number September = 9"
| "month_number October = 10"
| "month_number November = 11"
| "month_number December = 12"

text \<open>\<open>strftime("%B")\<close>: the full month name.\<close>

fun month_name :: "month \<Rightarrow> string" where
  "month_name January = ''January''"
| "month_name February = ''February''"
| "month_name March = ''March''"
| "month_name April = ''April''"
| "month_name May = ''May''"
| "month_name June = ''June''"
| "month_name July = ''July''"
| "month_name August = ''August''"
| "month_name September = ''September''"
| "month_name October = ''October''"
| "month_name November = ''November''"
| "month_name December = ''December''"

text \<open>A pandas Timestamp, to the day: the script reads its year, its month and its order.\<close>

datatype timestamp = Timestamp (ts_year: int) (ts_month: month) (ts_day: nat)

datatype cell = Null | Str string | Num rat | Stamp timestamp

datatype error = KeyError string | TypeError | ValueError | IntCastingNaNError

type_synonym row = "string \<Rightarrow> cell"

record table =
  columns :: "string list"
  rows :: "row list"

text \<open>
  The library functions the script calls without fixing their result:
  \<^item> \<open>to_datetime_coerce\<close>: what \<open>pd.to_datetime(errors="coerce")\<close> makes of a text or a
    number (\<open>None\<close> is NaT);
  \<^item> \<open>to_numeric_str\<close>: what \<open>pd.to_numeric(errors="coerce")\<close> makes of a text (\<open>None\<close> is
    NaN);
  \<^item> \<open>py_str\<close>: Python's \<open>str\<close> of a number or a timestamp;
  \<^item> \<open>sort_desc\<close>: the reordering done by \<open>sort_values(ascending=False)\<close> with the default
    \<open>kind="quicksort"\<close>, given the sort key of each row (\<open>None\<close> is NaN).
\<close>

record lib =
  to_datetime_coerce :: "cell \<Rightarrow> timestamp option"
  to_numeric_str :: "string \<Rightarrow> rat option"
  py_str :: "cell \<Rightarrow> string"
  sort_desc :: "(row \<Rightarrow> rat option) \<Rightarrow> row list \<Rightarrow> row list"

definition bind_err :: "error + 'a \<Rightarrow> ('a \<Rightarrow> error + 'b) \<Rightarrow> error + 'b" where
  "bind_err m f = (case m of Inl e \<Rightarrow> Inl e | Inr x \<Rightarrow> f x)"

text \<open>\<open>df[c]\<close> as a check: KeyError when \<open>c\<close> is not a column.\<close>

definition require :: "string \<Rightarrow> table \<Rightarrow> error + table" where
  "require c df = (if c \<in> set (columns df) then Inr df else Inl (KeyError c))"

text \<open>\<open>df[c] = f(row)\<close>: an elementwise column assignment; a new label is appended.\<close>

definition assign :: "string \<Rightarrow> (row \<Rightarrow> cell) \<Rightarrow> table \<Rightarrow> table" where
  "assign c f df =
     \<lparr>columns = (if c \<in> set (columns df) then columns df else columns df @ [c]),
      rows = map (\<lambda>r. r(c := f r)) (rows df)\<rparr>"

text \<open>\<open>df[mask]\<close> with an elementwise mask.\<close>

definition select_rows :: "(row \<Rightarrow> bool) \<Rightarrow> table \<Rightarrow> table" where
  "select_rows p df = df\<lparr>rows := filter p (rows df)\<rparr>"

text \<open>\<open>df.dropna(subset=cs)\<close>: KeyError on the first label of \<open>cs\<close> that is not a column.\<close>

definition dropna :: "string list \<Rightarrow> table \<Rightarrow> error + table" where
  "dropna cs df =
     (case filter (\<lambda>c. c \<notin> set (columns df)) cs of
        c # _ \<Rightarrow> Inl (KeyError c)
      | [] \<Rightarrow> Inr (select_rows (\<lambda>r. list_all (\<lambda>c. r c \<noteq> Null) cs) df))"

subsection \<open>Filter engine\<close>

text \<open>\<open>str.lower\<close> on the letters of ASCII; the other bytes are kept.\<close>

definition lower_char :: "char \<Rightarrow> char" where
  "lower_char c =
     (case map_of (zip ''ABCDEFGHIJKLMNOPQRSTUVWXYZ'' ''abcdefghijklmnopqrstuvwxyz'') c of
        Some l \<Rightarrow> l
      | None \<Rightarrow> c)"

definition str_lower :: "string \<Rightarrow> string" where
  "str_lower s = map lower_char s"

text \<open>\<open>astype(str)\<close>: a missing cell prints as \<open>nan\<close>.\<close>

fun astype_str :: "lib \<Rightarrow> cell \<Rightarrow> string" where
  "astype_str L Null = ''nan''"
| "astype_str L (Str s) = s"
| "astype_str L (Num v) = py_str L (Num v)"
| "astype_str L (Stamp t) = py_str L (Stamp t)"

text \<open>Lines 68 to 73: an empty selection leaves the table as it is.\<close>

definition filtered_df :: "table \<Rightarrow> cell list \<Rightarrow> cell list \<Rightarrow> error + table" where
  "filtered_df df selected_years selected_months =
     bind_err
       (if selected_years \<noteq> []
        then bind_err (require ''Year'' df)
               (\<lambda>d. Inr (select_rows (\<lambda>r. r ''Year'' \<in> set selected_years) d))
        else Inr df)
       (\<lambda>d1. if selected_months \<noteq> []
              then bind_err (require ''Month_Name'' d1)
                     (\<lambda>d. Inr (select_rows (\<lambda>r. r ''Month_Name'' \<in> set selected_months) d))
              else Inr d1)"

text \<open>Lines 89 and 92.\<close>

definition ticketed_df :: "lib \<Rightarrow> table \<Rightarrow> error + table" where
  "ticketed_df L filtered =
     bind_err (require ''Ticket Numbers'' filtered)
       (\<lambda>d. dropna [''Total Price'', ''Commission'']
               (select_rows
                  (\<lambda>r. str_lower (astype_str L (r ''Ticket Numbers'')) \<noteq> ''no tickets'') d))"

text \<open>A text equals another up to case when their lower-case forms are equal.\<close>

definition ci_equal :: "string \<Rightarrow> string \<Rightarrow> bool" where
  "ci_equal s t = (str_lower s = str_lower t)"

subsection \<open>Loader\<close>




subsection \<open>Normalizer\<close>

text \<open>\<open>pd.to_datetime(errors="coerce")\<close>, elementwise.\<close>

fun to_datetime :: "lib \<Rightarrow> cell \<Rightarrow> cell" where
  "to_datetime L Null = Null"
| "to_datetime L (Stamp t) = Stamp t"
| "to_datetime L c = (case to_datetime_coerce L c of None \<Rightarrow> Null | Some t \<Rightarrow> Stamp t)"

text \<open>\<open>.dt.year\<close>, \<open>.dt.month\<close> and \<open>.dt.strftime("%B")\<close> of a datetime cell.\<close>

fun dt_year :: "cell \<Rightarrow> cell" where
  "dt_year (Stamp t) = Num (of_int (ts_year t))"
| "dt_year c = Null"

fun dt_month :: "cell \<Rightarrow> cell" where
  "dt_month (Stamp t) = Num (of_nat (month_number (ts_month t)))"
| "dt_month c = Null"

fun dt_month_name :: "cell \<Rightarrow> cell" where
  "dt_month_name (Stamp t) = Str (month_name (ts_month t))"
| "dt_month_name c = Null"

definition numeric_cols :: "string list" where
  "numeric_cols = [''Total Price'', ''Commission'', ''No Passengers'']"

definition null_sentinels :: "string list" where
  "null_sentinels = [''NaN'', ''nan'', ''NAN'', ''Null'', ''NULL'', [], '' '']"

text \<open>\<open>.replace(null_sentinels, pd.NA)\<close>, elementwise.\<close>

fun replace_sentinels :: "cell \<Rightarrow> cell" where
  "replace_sentinels (Str s) = (if s \<in> set null_sentinels then Null else Str s)"
| "replace_sentinels c = c"

text \<open>\<open>pd.to_numeric(errors="coerce")\<close>, elementwise: what is not a number becomes NaN.\<close>

fun to_numeric :: "lib \<Rightarrow> cell \<Rightarrow> cell" where
  "to_numeric L Null = Null"
| "to_numeric L (Num v) = Num v"
| "to_numeric L (Str s) = (case to_numeric_str L s of None \<Rightarrow> Null | Some v \<Rightarrow> Num v)"
| "to_numeric L (Stamp t) = Null"

text \<open>The body of the loop of lines 37 to 40, guarded by \<open>col in df.columns\<close>.\<close>

definition fix_numeric :: "lib \<Rightarrow> string \<Rightarrow> table \<Rightarrow> table" where
  "fix_numeric L col df =
     (if col \<in> set (columns df)
      then assign col (\<lambda>r. to_numeric L (r col))
             (assign col (\<lambda>r. replace_sentinels (r col)) df)
      else df)"

text \<open>\<open>.fillna(0)\<close>, elementwise.\<close>

fun fillna0 :: "cell \<Rightarrow> cell" where
  "fillna0 Null = Num 0"
| "fillna0 c = c"

text \<open>
  The cast of a double to a 64-bit integer: truncation toward zero. Out of range the C
  cast is undefined; the value here is the one x86-64 gives, the least 64-bit integer.
\<close>

definition int64_of :: "rat \<Rightarrow> int" where
  "int64_of v =
     (let t = (if 0 \<le> v then \<lfloor>v\<rfloor> else \<lceil>v\<rceil>)
      in if - (2 ^ 63) \<le> t \<and> t < 2 ^ 63 then t else - (2 ^ 63))"

text \<open>\<open>.astype(int)\<close>, elementwise: a missing value cannot be cast.\<close>

fun astype_int :: "cell \<Rightarrow> error + cell" where
  "astype_int (Num v) = Inr (Num (of_int (int64_of v)))"
| "astype_int Null = Inl IntCastingNaNError"
| "astype_int (Str s) = Inl ValueError"
| "astype_int (Stamp t) = Inl TypeError"

fun sequence_err :: "(error + 'a) list \<Rightarrow> error + 'a list" where
  "sequence_err [] = Inr []"
| "sequence_err (x # xs) =
     bind_err x (\<lambda>y. bind_err (sequence_err xs) (\<lambda>ys. Inr (y # ys)))"

text \<open>A column assignment whose elementwise operation can raise.\<close>

definition assign_err :: "string \<Rightarrow> (row \<Rightarrow> error + cell) \<Rightarrow> table \<Rightarrow> error + table" where
  "assign_err c f df =
     bind_err (sequence_err (map (\<lambda>r. bind_err (f r) (\<lambda>v. Inr (r(c := v)))) (rows df)))
       (\<lambda>rs. Inr \<lparr>columns = (if c \<in> set (columns df) then columns df else columns df @ [c]),
                     rows = rs\<rparr>)"

text \<open>Lines 27 to 44.\<close>

definition normalizer :: "lib \<Rightarrow> table \<Rightarrow> error + table" where
  "normalizer L df0 =
     bind_err (require ''Date'' df0) (\<lambda>df1.
     bind_err (dropna [''Date''] (assign ''Date'' (\<lambda>r. to_datetime L (r ''Date'')) df1)) (\<lambda>df2.
       let df3 = assign ''Year'' (\<lambda>r. dt_year (r ''Date'')) df2;
           df4 = assign ''Month'' (\<lambda>r. dt_month (r ''Date'')) df3;
           df5 = assign ''Month_Name'' (\<lambda>r. dt_month_name (r ''Date'')) df4;
           df6 = fold (fix_numeric L) numeric_cols df5
       in if ''No Passengers'' \<in> set (columns df6)
          then assign_err ''No Passengers'' (\<lambda>r. astype_int (fillna0 (r ''No Passengers''))) df6
          else Inr df6))"

subsection \<open>Sidebar\<close>

text \<open>\<open>Series.unique()\<close>: the distinct values in the order of their first appearance.\<close>

definition unique :: "'a list \<Rightarrow> 'a list" where
  "unique xs = rev (remdups (rev xs))"



text \<open>
  The sort key of line 59, \<open>pd.to_datetime(x, format='%B').month\<close>: the number of the month
  that a full month name names; ValueError on any other value.
\<close>

definition month_key :: "cell \<Rightarrow> error + nat" where
  "month_key c =
     (case c of
        Str s \<Rightarrow>
          (case map_of (map (\<lambda>m. (month_name m, month_number m))
                  [January, February, March, April, May, June,
                   July, August, September, October, November, December]) s of
             Some n \<Rightarrow> Inr n
           | None \<Rightarrow> Inl ValueError)
      | _ \<Rightarrow> Inl ValueError)"

text \<open>Line 59.\<close>

definition available_months :: "table \<Rightarrow> error + cell list" where
  "available_months df =
     bind_err (require ''Month_Name'' df) (\<lambda>d.
       let names = unique (map (\<lambda>r. r ''Month_Name'') (rows d))
       in bind_err (sequence_err (map month_key names))
            (\<lambda>keys. Inr (map snd (sort_key fst (zip keys names)))))"




subsection \<open>Aggregator\<close>









text \<open>
  One row per key: the key and, for each \<open>(out, src, reduce)\<close>, the reduction of the column
  \<open>src\<close> over the rows of the group, under the label \<open>out\<close>.
\<close>

definition agg_row ::
  "string \<Rightarrow> (string \<times> string \<times> (string \<Rightarrow> row list \<Rightarrow> cell)) list \<Rightarrow> row list \<Rightarrow> cell \<Rightarrow> row" where
  "agg_row k aggs rs g =
     fold (\<lambda>(out, src, reduce) r. r(out := reduce src (filter (\<lambda>x. x k = g) rs)))
       aggs ((\<lambda>_. Null)(k := g))"

definition agg_groups ::
  "string \<Rightarrow> cell list \<Rightarrow> (string \<times> string \<times> (string \<Rightarrow> row list \<Rightarrow> cell)) list
     \<Rightarrow> table \<Rightarrow> error + table" where
  "agg_groups k keys aggs df =
     (case filter (\<lambda>c. c \<notin> set (columns df)) (k # map (\<lambda>(out, src, reduce). src) aggs) of
        c # _ \<Rightarrow> Inl (KeyError c)
      | [] \<Rightarrow>
          Inr \<lparr>columns = k # map fst aggs, rows = map (agg_row k aggs (rows df)) keys\<rparr>)"
























subsection \<open>The script\<close>






subsection \<open>Properties used in the statements\<close>



text \<open>
  Two instances of the library: both read decimal digits as a number, take only
  timestamp cells as dates and print every number as \<open>0\<close>. The first sorts the reversed
  rows ascending with a stable sort and reverses the result, which keeps the order of equal
  keys; the second sorts the rows ascending and reverses the result, which reverses the
  order of equal keys. Both meet \<open>sorts_descending\<close>.
\<close>

definition digits_value :: "string \<Rightarrow> rat option" where
  "digits_value s =
     (if s \<noteq> [] \<and> list_all (\<lambda>c. c \<in> set ''0123456789'') s
      then Some (of_nat (foldl (\<lambda>n c. 10 * n + (of_char c - 48)) 0 s))
      else None)"

definition stable_lib :: lib where
  "stable_lib =
     \<lparr>to_datetime_coerce = (\<lambda>c. None), to_numeric_str = digits_value,
      py_str = (\<lambda>c. ''0''),
      sort_desc = (\<lambda>k rs. rev (sort_key k (rev rs)))\<rparr>"


text \<open>A row given by its cells; every other label is missing.\<close>

definition mk_row :: "(string \<times> cell) list \<Rightarrow> row" where
  "mk_row kvs = (\<lambda>c. case map_of kvs c of Some v \<Rightarrow> v | None \<Rightarrow> Null)"

subsection \<open>Example tables\<close>

text \<open>
  Four bookings: a ticketed one, a placeholder, one without a price and one without a
  ticket number.
\<close>

definition bookings :: table where
  "bookings =
     \<lparr>columns = [''Date'', ''Ticket Numbers'', ''Total Price'', ''Commission''],
      rows = [mk_row [(''Ticket Numbers'', Str ''ABC123''), (''Total Price'', Num 4000), (''Commission'', Num 200)],
              mk_row [(''Ticket Numbers'', Str ''No Tickets''), (''Total Price'', Num 100), (''Commission'', Num 5)],
              mk_row [(''Ticket Numbers'', Str ''XYZ''), (''Commission'', Num 5)],
              mk_row [(''Total Price'', Num 700), (''Commission'', Num 7)]]\<rparr>"

text \<open>Three rows with their facets.\<close>

definition calendar :: table where
  "calendar =
     \<lparr>columns = [''Year'', ''Month_Name''],
      rows = [mk_row [(''Year'', Num 2024), (''Month_Name'', Str ''January'')],
              mk_row [(''Year'', Num 2023), (''Month_Name'', Str ''January'')],
              mk_row [(''Year'', Num 2024), (''Month_Name'', Str ''March'')]]\<rparr>"

text \<open>The labels after an assignment to the column \<open>c\<close>.\<close>

definition add_label :: "string \<Rightarrow> string list \<Rightarrow> string list" where
  "add_label c cs = (if c \<in> set cs then cs else cs @ [c])"

text \<open>
  The Normalizer read row by row: what lines 27 to 44 make of one raw row whose date can be
  read, in a table whose labels are \<open>cs\<close>.
\<close>

definition normalizer_row :: "lib \<Rightarrow> string list \<Rightarrow> row \<Rightarrow> row" where
  "normalizer_row L cs r =
     (let r1 = r(''Date'' := to_datetime L (r ''Date''));
          r2 = r1(''Year'' := dt_year (r1 ''Date''));
          r3 = r2(''Month'' := dt_month (r2 ''Date''));
          r4 = r3(''Month_Name'' := dt_month_name (r3 ''Date''));
          fix = (\<lambda>c x. if c \<in> set cs then x(c := to_numeric L (replace_sentinels (x c))) else x);
          r5 = fix ''No Passengers'' (fix ''Commission'' (fix ''Total Price'' r4))
      in if ''No Passengers'' \<in> set cs
         then r5(''No Passengers'' :=
                   (case r5 ''No Passengers'' of Num v \<Rightarrow> Num (of_int (int64_of v)) | _ \<Rightarrow> Num 0))
         else r5)"

text \<open>The cells of a column.\<close>

definition col :: "string \<Rightarrow> table \<Rightarrow> cell list" where
  "col c df = map (\<lambda>r. r c) (rows df)"

text \<open>A date cell.\<close>

definition day :: "int \<Rightarrow> month \<Rightarrow> nat \<Rightarrow> cell" where
  "day y m d = Stamp (Timestamp y m d)"



text \<open>Two days in April, one in January.\<close>

definition spring :: table where
  "spring =
     \<lparr>columns = [''Date''],
      rows = [mk_row [(''Date'', day 2024 April 2)],
              mk_row [(''Date'', day 2024 January 5)],
              mk_row [(''Date'', day 2023 April 9)]]\<rparr>"









section \<open>Properties\<close>

subsection \<open>Basic facts\<close>


lemma str_lower_no_tickets: "str_lower ''no tickets'' = ''no tickets''"
  by (simp add: str_lower_def lower_char_def)

lemma bind_err_simps:
  "bind_err (Inl e) f = Inl e"
  "bind_err (Inr x) f = f x"
  by (simp_all add: bind_err_def)

lemma require_simps:
  "c \<in> set (columns df) \<Longrightarrow> require c df = Inr df"
  "c \<notin> set (columns df) \<Longrightarrow> require c df = Inl (KeyError c)"
  by (simp_all add: require_def)

lemma columns_select_rows: "columns (select_rows p df) = columns df"
  by (simp add: select_rows_def)

lemma rows_select_rows: "rows (select_rows p df) = filter p (rows df)"
  by (simp add: select_rows_def)

lemma dropna_present:
  "set cs \<subseteq> set (columns df) \<Longrightarrow>
   dropna cs df = Inr (select_rows (\<lambda>r. \<forall>c\<in>set cs. r c \<noteq> Null) df)"
  by (simp add: dropna_def filter_empty_conv[THEN iffD2] subset_iff list_all_iff)


lemma ticketed_df_present:
  assumes "''Ticket Numbers'' \<in> set (columns f)" "''Total Price'' \<in> set (columns f)"
    "''Commission'' \<in> set (columns f)"
  shows "ticketed_df L f =
      Inr (f\<lparr>rows := filter (\<lambda>r. str_lower (astype_str L (r ''Ticket Numbers'')) \<noteq> ''no tickets''
                                \<and> r ''Total Price'' \<noteq> Null \<and> r ''Commission'' \<noteq> Null) (rows f)\<rparr>)"
proof -
  let ?p = "\<lambda>r. str_lower (astype_str L (r ''Ticket Numbers'')) \<noteq> ''no tickets''"
  have "set [''Total Price'', ''Commission''] \<subseteq> set (columns (select_rows ?p f))"
    using assms by (simp add: columns_select_rows)
  from dropna_present[OF this]
  have "dropna [''Total Price'', ''Commission''] (select_rows ?p f) =
     Inr (select_rows (\<lambda>r. r ''Total Price'' \<noteq> Null \<and> r ''Commission'' \<noteq> Null) (select_rows ?p f))"
    by simp
  then show ?thesis
    using assms(1)
    by (simp add: ticketed_df_def require_simps bind_err_simps select_rows_def)
qed


subsection \<open>The ticketed subset\<close>



text \<open>
  C10. A row whose \<open>Ticket Numbers\<close> cell is missing prints as \<open>nan\<close>, which is not
  \<open>no tickets\<close>, so the row stays in the ticketed subset whenever its price and its
  commission are present.
\<close>

theorem null_ticket_numbers_kept:
  assumes "''Ticket Numbers'' \<in> set (columns f)" "''Total Price'' \<in> set (columns f)"
    "''Commission'' \<in> set (columns f)"
    and "r \<in> set (rows f)" "r ''Ticket Numbers'' = Null"
    and "r ''Total Price'' \<noteq> Null" "r ''Commission'' \<noteq> Null"
  shows "astype_str L (r ''Ticket Numbers'') = ''nan''
    \<and> \<not> ci_equal (astype_str L (r ''Ticket Numbers'')) ''no tickets''
    \<and> (\<exists>t. ticketed_df L f = Inr t \<and> r \<in> set (rows t))"
proof -
  have "str_lower ''nan'' \<noteq> ''no tickets''"
    by (simp add: str_lower_def)
  with assms(4-7) show ?thesis
    by (simp add: ticketed_df_present[OF assms(1-3)] ci_equal_def str_lower_no_tickets)
qed

theorem null_ticket_numbers_kept_witness:
  "astype_str stable_lib (mk_row [(''Total Price'', Num 700), (''Commission'', Num 7)] ''Ticket Numbers'') = ''nan''
   \<and> (\<exists>t. ticketed_df stable_lib bookings = Inr t
          \<and> mk_row [(''Total Price'', Num 700), (''Commission'', Num 7)] \<in> set (rows t))"
  using null_ticket_numbers_kept [of bookings "mk_row [(''Total Price'', Num 700), (''Commission'', Num 7)]" stable_lib]
  by (simp add: bookings_def mk_row_def)

subsection \<open>The year and month filter\<close>

text \<open>
  C2. With both selections empty the filter returns the table itself. In general, when the
  column of every facet with a selection exists, the result keeps exactly the rows that
  pass each facet: a facet with an empty selection lets every row pass, a facet with a
  selection lets pass the rows whose \<open>Year\<close> (or \<open>Month_Name\<close>) is among the selected
  values.
\<close>

theorem filtered_df_selection:
  "filtered_df df [] [] = Inr df
   \<and> ((ys \<noteq> [] \<longrightarrow> ''Year'' \<in> set (columns df))
        \<and> (ms \<noteq> [] \<longrightarrow> ''Month_Name'' \<in> set (columns df)) \<longrightarrow>
      filtered_df df ys ms =
        Inr (df\<lparr>rows := filter (\<lambda>r. (ys = [] \<or> r ''Year'' \<in> set ys)
                                   \<and> (ms = [] \<or> r ''Month_Name'' \<in> set ms)) (rows df)\<rparr>))"
proof (intro conjI impI)
  show "filtered_df df [] [] = Inr df"
    by (simp add: filtered_df_def bind_err_simps)
next
  assume cols: "(ys \<noteq> [] \<longrightarrow> ''Year'' \<in> set (columns df))
        \<and> (ms \<noteq> [] \<longrightarrow> ''Month_Name'' \<in> set (columns df))"
  show "filtered_df df ys ms =
        Inr (df\<lparr>rows := filter (\<lambda>r. (ys = [] \<or> r ''Year'' \<in> set ys)
                                   \<and> (ms = [] \<or> r ''Month_Name'' \<in> set ms)) (rows df)\<rparr>)"
  proof (cases "ys = []")
    case y: True
    show ?thesis
    proof (cases "ms = []")
      case True
      with y show ?thesis by (simp add: filtered_df_def bind_err_simps)
    next
      case False
      with y cols show ?thesis
        by (simp add: filtered_df_def bind_err_simps require_simps select_rows_def)
    qed
  next
    case y: False
    show ?thesis
    proof (cases "ms = []")
      case True
      with y cols show ?thesis
        by (simp add: filtered_df_def bind_err_simps require_simps select_rows_def)
    next
      case False
      with y cols show ?thesis
        by (simp add: filtered_df_def bind_err_simps require_simps select_rows_def)
    qed
  qed
qed

theorem filtered_df_selection_witness:
  "filtered_df calendar [] [] = Inr calendar
   \<and> ''Year'' \<in> set (columns calendar) \<and> ''Month_Name'' \<in> set (columns calendar)
   \<and> filtered_df calendar [Num 2024] [] =
       Inr (calendar\<lparr>rows := [mk_row [(''Year'', Num 2024), (''Month_Name'', Str ''January'')],
                              mk_row [(''Year'', Num 2024), (''Month_Name'', Str ''March'')]]\<rparr>)
   \<and> filtered_df calendar [Num 2024, Num 2023] [Str ''March''] =
       Inr (calendar\<lparr>rows := [mk_row [(''Year'', Num 2024), (''Month_Name'', Str ''March'')]]\<rparr>)"
  using filtered_df_selection [of calendar "[Num 2024]" "[]"]
    filtered_df_selection [of calendar "[Num 2024, Num 2023]" "[Str ''March'']"]
  by (simp add: calendar_def mk_row_def)

subsection \<open>The Normalizer\<close>

lemma columns_assign:
  "set (columns (assign c f df)) = insert c (set (columns df))"
  by (auto simp: assign_def)

lemma rows_assign: "rows (assign c f df) = map (\<lambda>r. r(c := f r)) (rows df)"
  by (simp add: assign_def)

lemma columns_fix_numeric: "columns (fix_numeric L c df) = columns df"
  by (simp add: fix_numeric_def assign_def)

lemma rows_fix_numeric:
  "rows (fix_numeric L c df) =
     (if c \<in> set (columns df)
      then map (\<lambda>r. r(c := to_numeric L (replace_sentinels (r c)))) (rows df)
      else rows df)"
  by (simp add: fix_numeric_def assign_def comp_def)

lemma sequence_err_map:
  "(\<And>x. x \<in> set xs \<Longrightarrow> f x = Inr (g x)) \<Longrightarrow> sequence_err (map f xs) = Inr (map g xs)"
  by (induction xs) (simp_all add: bind_err_simps)

lemma assign_err_total:
  assumes "\<And>r. r \<in> set (rows df) \<Longrightarrow> f r = Inr (g r)"
  shows "assign_err c f df = Inr (assign c g df)"
proof -
  have "sequence_err (map (\<lambda>r. bind_err (f r) (\<lambda>v. Inr (r(c := v)))) (rows df))
      = Inr (map (\<lambda>r. r(c := g r)) (rows df))"
    by (rule sequence_err_map) (simp add: assms bind_err_simps)
  then show ?thesis
    by (simp add: assign_err_def assign_def bind_err_simps)
qed

lemma to_numeric_cases: "to_numeric L c = Null \<or> (\<exists>v. to_numeric L c = Num v)"
  by (cases c) (auto split: option.splits)

lemma int64_of_zero: "int64_of 0 = 0"
  by (simp add: int64_of_def)

lemma astype_int_fillna0:
  "astype_int (fillna0 (to_numeric L c)) =
     Inr (case to_numeric L c of Num v \<Rightarrow> Num (of_int (int64_of v)) | _ \<Rightarrow> Num 0)"
  using to_numeric_cases [of L c] by (auto simp: int64_of_zero)

lemma dropna_date:
  "''Date'' \<in> set (columns df) \<Longrightarrow>
   dropna [''Date''] df = Inr (select_rows (\<lambda>r. r ''Date'' \<noteq> Null) df)"
  by (simp add: dropna_def)

lemma columns_assign_eq: "columns (assign c f df) = add_label c (columns df)"
  by (simp add: assign_def add_label_def)

lemma set_add_label: "set (add_label c cs) = insert c (set cs)"
  by (auto simp: add_label_def)

lemma normalizer_shape:
  assumes d: "''Date'' \<in> set (columns df)"
  shows "normalizer L df =
            Inr \<lparr>columns = add_label ''Month_Name'' (add_label ''Month'' (add_label ''Year'' (columns df))),
                 rows = map (normalizer_row L (columns df))
                          (filter (\<lambda>r. to_datetime L (r ''Date'') \<noteq> Null) (rows df))\<rparr>"
proof -
  let ?keep = "\<lambda>r. to_datetime L (r ''Date'') \<noteq> Null"
  let ?NP = "''No Passengers''"
  let ?cs = "add_label ''Month_Name'' (add_label ''Month'' (add_label ''Year'' (columns df)))"
  let ?fix = "\<lambda>c (x::row). if c \<in> set (columns df) then x(c := to_numeric L (replace_sentinels (x c))) else x"
  define df1 where "df1 = assign ''Date'' (\<lambda>r. to_datetime L (r ''Date'')) df"
  define df2 where "df2 = select_rows (\<lambda>r. r ''Date'' \<noteq> Null) df1"
  define df3 where "df3 = assign ''Year'' (\<lambda>r. dt_year (r ''Date'')) df2"
  define df4 where "df4 = assign ''Month'' (\<lambda>r. dt_month (r ''Date'')) df3"
  define df5 where "df5 = assign ''Month_Name'' (\<lambda>r. dt_month_name (r ''Date'')) df4"
  define t1 where "t1 = fix_numeric L ''Total Price'' df5"
  define t2 where "t2 = fix_numeric L ''Commission'' t1"
  define df6 where "df6 = fix_numeric L ?NP t2"
  define g5 where "g5 = (\<lambda>r::row. let r1 = r(''Date'' := to_datetime L (r ''Date''));
      r2 = r1(''Year'' := dt_year (r1 ''Date''));
      r3 = r2(''Month'' := dt_month (r2 ''Date''))
      in r3(''Month_Name'' := dt_month_name (r3 ''Date'')))"
  define g6 where "g6 = (\<lambda>r. ?fix ?NP (?fix ''Commission'' (?fix ''Total Price'' (g5 r))))"
  have norm: "normalizer L df =
      (if ?NP \<in> set (columns df6)
       then assign_err ?NP (\<lambda>r. astype_int (fillna0 (r ?NP))) df6 else Inr df6)"
    using d
    by (simp add: normalizer_def require_simps bind_err_simps dropna_date columns_assign
        numeric_cols_def df1_def df2_def df3_def df4_def df5_def t1_def t2_def df6_def Let_def)
  have "columns df1 = columns df"
    using d by (simp add: df1_def assign_def)
  then have cols5: "columns df5 = ?cs"
    by (simp add: df5_def df4_def df3_def df2_def columns_assign_eq columns_select_rows)
  have cols6: "columns df6 = ?cs"
    by (simp add: df6_def t2_def t1_def columns_fix_numeric cols5)
  have mem: "c \<in> set ?cs \<longleftrightarrow> c \<in> set (columns df)"
    if "c \<noteq> ''Year''" "c \<noteq> ''Month''" "c \<noteq> ''Month_Name''" for c
    using that by (simp add: set_add_label)
  have rows2: "rows df2 = map (\<lambda>r. r(''Date'' := to_datetime L (r ''Date''))) (filter ?keep (rows df))"
    by (simp add: df2_def df1_def rows_select_rows rows_assign filter_map comp_def)
  have rows5: "rows df5 = map g5 (filter ?keep (rows df))"
    by (simp add: df5_def df4_def df3_def rows_assign rows2 g5_def Let_def comp_def)
  have rows1: "rows t1 = map (?fix ''Total Price'') (rows df5)"
    by (simp add: t1_def rows_fix_numeric cols5 mem)
  have rowst2: "rows t2 = map (?fix ''Commission'') (rows t1)"
    by (simp add: t2_def t1_def rows_fix_numeric columns_fix_numeric cols5 mem)
  have rows6': "rows df6 = map (?fix ?NP) (rows t2)"
    by (simp add: df6_def t2_def t1_def rows_fix_numeric columns_fix_numeric cols5 mem)
  have rows6: "rows df6 = map g6 (filter ?keep (rows df))"
    by (simp only: rows6' rowst2 rows1 rows5 map_map comp_def g6_def)
  show ?thesis
  proof (cases "?NP \<in> set (columns df)")
    case False
    then have "normalizer_row L (columns df) = g6"
      by (simp add: normalizer_row_def g6_def g5_def Let_def fun_eq_iff)
    moreover have "df6 = \<lparr>columns = ?cs, rows = rows df6\<rparr>"
      using cols6 by (cases df6) simp
    ultimately show ?thesis
      using norm False by (simp add: cols6 mem rows6)
  next
    case True
    let ?cast = "\<lambda>r::row. case r ?NP of Num v \<Rightarrow> Num (of_int (int64_of v)) | _ \<Rightarrow> Num 0"
    have "assign_err ?NP (\<lambda>r. astype_int (fillna0 (r ?NP))) df6 = Inr (assign ?NP ?cast df6)"
    proof (rule assign_err_total)
      fix r assume "r \<in> set (rows df6)"
      with True obtain x where "r = x(?NP := to_numeric L (replace_sentinels (x ?NP)))"
        by (auto simp: rows6')
      then show "astype_int (fillna0 (r ?NP)) = Inr (?cast r)"
        by (simp add: astype_int_fillna0)
    qed
    with norm True
    have res: "normalizer L df = Inr (assign ?NP ?cast df6)"
      by (simp add: cols6 mem)
    have "normalizer_row L (columns df) = (\<lambda>r. (g6 r)(?NP := ?cast (g6 r)))"
      using True by (simp add: normalizer_row_def g6_def g5_def Let_def fun_eq_iff)
    moreover have "assign ?NP ?cast df6 = \<lparr>columns = ?cs, rows = map (\<lambda>r. (g6 r)(?NP := ?cast (g6 r))) (filter ?keep (rows df))\<rparr>"
      using True by (simp add: assign_def cols6 mem rows6 comp_def)
    ultimately show ?thesis
      using res by simp
  qed
qed










subsection \<open>The sidebar\<close>

lemma set_unique: "set (unique xs) = set xs"
  by (simp add: unique_def)

lemma distinct_unique: "distinct (unique xs)"
  by (simp add: unique_def)

lemma insort_key_map:
  "insort_key k (g x) (map g xs) = map g (insort_key (\<lambda>y. k (g y)) x xs)"
  by (induction xs) simp_all

lemma sort_key_map: "sort_key k (map g xs) = map g (sort_key (\<lambda>y. k (g y)) xs)"
  by (induction xs) (simp_all add: insort_key_map)

lemma month_key_name: "month_key (Str (month_name m)) = Inr (month_number m)"
  by (cases m) (simp_all add: month_key_def)

lemma inj_month_number: "inj month_number"
proof (rule injI)
  fix a b assume "month_number a = month_number b"
  then show "a = b" by (cases a; cases b) simp_all
qed

lemma inj_month_name: "inj (\<lambda>m. Str (month_name m))"
proof (rule injI)
  fix a b assume "Str (month_name a) = Str (month_name b)"
  then show "a = b" by (cases a; cases b) simp_all
qed

lemma to_datetime_cases: "to_datetime L c = Null \<or> (\<exists>t. to_datetime L c = Stamp t)"
  by (cases c) (auto split: option.splits)

lemma normalizer_row_month_name:
  "normalizer_row L cs r ''Month_Name'' = dt_month_name (to_datetime L (r ''Date''))"
  by (simp add: normalizer_row_def Let_def)

lemma normalizer_date_present: "normalizer L df = Inr d \<Longrightarrow> ''Date'' \<in> set (columns df)"
  by (cases "''Date'' \<in> set (columns df)")
     (simp_all add: normalizer_def require_simps bind_err_simps)

lemma available_months_sorted:
  assumes c: "''Month_Name'' \<in> set (columns d)"
    and names: "unique (col ''Month_Name'' d) = map (\<lambda>m. Str (month_name m)) ms"
  shows "available_months d = Inr (map (\<lambda>m. Str (month_name m)) (sort_key month_number ms))"
proof -
  let ?f = "\<lambda>m. Str (month_name m)"
  have keys: "sequence_err (map month_key (map ?f ms)) = Inr (map month_number ms)"
    unfolding map_map by (rule sequence_err_map) (simp add: month_key_name)
  have "zip (map month_number ms) (map ?f ms) = map (\<lambda>m. (month_number m, ?f m)) ms"
    by (induction ms) simp_all
  then have "map snd (sort_key fst (zip (map month_number ms) (map ?f ms)))
      = map ?f (sort_key month_number ms)"
    by (simp add: sort_key_map comp_def)
  with c names keys show ?thesis
    by (simp add: available_months_def require_simps bind_err_simps Let_def col_def)
qed

lemma available_months_normalized:
  assumes "normalizer L df = Inr d"
  shows "\<exists>ms. available_months d = Inr (map (\<lambda>m. Str (month_name m)) ms)
           \<and> sorted_wrt (\<lambda>a b. month_number a < month_number b) ms
           \<and> set (map (\<lambda>m. Str (month_name m)) ms) = set (col ''Month_Name'' d)"
proof -
  let ?f = "\<lambda>m. Str (month_name m)"
  let ?keep = "\<lambda>r. to_datetime L (r ''Date'') \<noteq> Null"
  have date: "''Date'' \<in> set (columns df)"
    using assms by (rule normalizer_date_present)
  from normalizer_shape[OF date, of L] assms
  have d: "d = \<lparr>columns = add_label ''Month_Name'' (add_label ''Month'' (add_label ''Year'' (columns df))),
                 rows = map (normalizer_row L (columns df)) (filter ?keep (rows df))\<rparr>"
    by simp
  have c: "''Month_Name'' \<in> set (columns d)"
    by (subst d) (simp add: set_add_label)
  have "\<forall>x\<in>set (col ''Month_Name'' d). \<exists>m. x = ?f m"
  proof
    fix x assume "x \<in> set (col ''Month_Name'' d)"
    then obtain r where r: "?keep r" and x: "x = dt_month_name (to_datetime L (r ''Date''))"
      by (subst (asm) d) (auto simp: col_def normalizer_row_month_name)
    from r to_datetime_cases[of L "r ''Date''"] obtain t where "to_datetime L (r ''Date'') = Stamp t"
      by auto
    with x show "\<exists>m. x = ?f m" by auto
  qed
  then have "\<forall>x\<in>set (unique (col ''Month_Name'' d)). \<exists>m. x = ?f m"
    by (simp add: set_unique)
  then obtain ms where ms: "unique (col ''Month_Name'' d) = map ?f ms"
    unfolding ex_map_conv[symmetric] by blast
  have "distinct (map ?f ms)"
    using distinct_unique[of "col ''Month_Name'' d"] ms by simp
  then have dist: "distinct ms"
    by (simp add: distinct_map)
  let ?ms = "sort_key month_number ms"
  have "sorted (map month_number ?ms)"
    by (rule sorted_sort_key)
  moreover have "distinct (map month_number ?ms)"
    using dist by (simp add: distinct_map inj_on_subset[OF inj_month_number])
  ultimately have "sorted_wrt (<) (map month_number ?ms)"
    by (simp add: strict_sorted_iff)
  then have "sorted_wrt (\<lambda>a b. month_number a < month_number b) ?ms"
    by (simp add: sorted_wrt_map)
  moreover have "set (map ?f ?ms) = set (col ''Month_Name'' d)"
    using arg_cong[OF ms, of set] by (simp add: set_unique)
  ultimately show ?thesis
    using available_months_sorted[OF c ms] by blast
qed

text \<open>
  C9. On every normalized table \<open>available_months\<close> returns the month names present, each
  once, in strictly increasing calendar order.
\<close>

theorem available_months_calendar:
  assumes "normalizer L df = Inr d"
  shows "\<exists>ms. available_months d = Inr (map (\<lambda>m. Str (month_name m)) ms)
           \<and> sorted_wrt (\<lambda>a b. month_number a < month_number b) ms
           \<and> set (map (\<lambda>m. Str (month_name m)) ms) = set (col ''Month_Name'' d)"
  using assms by (rule available_months_normalized)

lemma spring_months:
  "map_sum id available_months (normalizer stable_lib spring)
     = Inr (Inr [Str ''January'', Str ''April''])"
  by (simp add: normalizer_shape spring_def mk_row_def day_def stable_lib_def
      available_months_def require_simps bind_err_simps set_add_label Let_def
      normalizer_row_month_name unique_def month_key_def)

text \<open>April comes first in the table and in the alphabet, January in the result.\<close>

theorem available_months_calendar_witness:
  "\<exists>d ms. normalizer stable_lib spring = Inr d
      \<and> available_months d = Inr [Str ''January'', Str ''April'']
      \<and> available_months d = Inr (map (\<lambda>m. Str (month_name m)) ms)
      \<and> sorted_wrt (\<lambda>a b. month_number a < month_number b) ms"
proof -
  have "''Date'' \<in> set (columns spring)"
    by (simp add: spring_def)
  from normalizer_shape[OF this, of stable_lib]
  obtain d where d: "normalizer stable_lib spring = Inr d" by blast
  from available_months_calendar[OF d] obtain ms
    where "available_months d = Inr (map (\<lambda>m. Str (month_name m)) ms)"
      and "sorted_wrt (\<lambda>a b. month_number a < month_number b) ms"
    by blast
  moreover from spring_months d have "available_months d = Inr [Str ''January'', Str ''April'']"
    by simp
  ultimately show ?thesis using d by blast
qed

subsection \<open>The price histogram\<close>





lemma rows_agg_groups:
  "agg_groups k keys aggs df = Inr g \<Longrightarrow> rows g = map (agg_row k aggs (rows df)) keys"
  by (auto simp: agg_groups_def split: list.splits)











subsection \<open>The loader\<close>


subsection \<open>The top-N aggregations\<close>



















subsection \<open>Missing columns\<close>
















subsection \<open>Empty subsets\<close>
























end
